theory Spec2Isabelle
  imports Main
begin

section \<open>Native bridging code of the HealthTracker application\<close>

text \<open>
  The sources are \<^verbatim>\<open>android/app/src/main/jni/MainComponentsRegistry.h\<close>,
  \<^verbatim>\<open>MainComponentsRegistry.cpp\<close> and \<^verbatim>\<open>MainApplicationModuleProvider.h\<close>.
  The class \<^verbatim>\<open>MainComponentsRegistry\<close> is a hybrid class of the host framework: a
  C++ object owned by a managed peer. Its member functions call into the host
  framework (\<^verbatim>\<open>CoreComponentsRegistry::sharedProviderRegistry\<close>,
  \<^verbatim>\<open>makeCxxInstance\<close>, \<^verbatim>\<open>registerHybrid\<close>), whose code is not part of the
  repository. Those calls are parameters of the model, collected in a record
  \<open>host\<close>. What the fragment does by itself is proved for every host. What depends on
  the host's own behaviour (whether the base accessor writes, whether the base
  registry is stable between calls) is proved on the reference host, which is modelled
  from the spec.
\<close>

subsection \<open>Calls: a world that is passed along, and C++ exceptions\<close>

text \<open>
  A C++ call may change the state of the process and may leave by an exception
  instead of returning. A call is therefore a function from the world before it to
  its outcome and the world after it.
\<close>

type_synonym exn = string

datatype 'a outcome = Returned 'a | Threw exn

type_synonym ('a, 'w) call = "'w \<Rightarrow> 'a outcome \<times> 'w"

definition returns :: "'a outcome \<times> 'w \<Rightarrow> bool" where
  "returns r = (case fst r of Returned v \<Rightarrow> True | Threw e \<Rightarrow> False)"

subsection \<open>Values that cross the bridge\<close>

type_synonym jclass = nat
  \<comment> \<open>\<^verbatim>\<open>jni::alias_ref<jclass>\<close>: a reference to a managed class\<close>

type_synonym jhybriddata = nat
  \<comment> \<open>\<^verbatim>\<open>jni::local_ref<jhybriddata>\<close>: a reference to the managed peer of a C++ instance\<close>

text \<open>
  Modelled from the spec: \<^verbatim>\<open>makeNativeMethod(name, fn)\<close> is a macro of the host's
  JNI helper library, which is not part of the repository. By the spec the
  registration contract is about ``a named constructor callable from managed code'':
  an entry of the native-method table is a name and the C++ function behind it. The
  only native function the fragment registers takes the managed class and returns a
  reference to hybrid data, which fixes the type of \<open>fnPtr\<close>.
\<close>

record 'w native_method =
  method_name :: string
  fnPtr :: "jclass \<Rightarrow> (jhybriddata, 'w) call"

definition makeNativeMethod ::
  "string \<Rightarrow> (jclass \<Rightarrow> (jhybriddata, 'w) call) \<Rightarrow> 'w native_method" where
  "makeNativeMethod name fn = \<lparr>method_name = name, fnPtr = fn\<rparr>"

subsection \<open>The host framework, as the fragment sees it\<close>

text \<open>
  \<^item> \<open>CoreComponentsRegistry_sharedProviderRegistry\<close>: the static accessor
    \<^verbatim>\<open>CoreComponentsRegistry::sharedProviderRegistry()\<close> of the base framework; \<open>'r\<close> is
    \<^verbatim>\<open>std::shared_ptr<ComponentDescriptorProviderRegistry const>\<close>.
  \<^item> \<open>makeCxxInstance\<close>: \<^verbatim>\<open>HybridClass<MainComponentsRegistry>::makeCxxInstance()\<close>.
  \<^item> \<open>registerHybrid\<close>: \<^verbatim>\<open>HybridClass<MainComponentsRegistry>::registerHybrid(methods)\<close>.
\<close>

record ('w, 'r) host =
  CoreComponentsRegistry_sharedProviderRegistry :: "('r, 'w) call"
  makeCxxInstance :: "(jhybriddata, 'w) call"
  registerHybrid :: "'w native_method list \<Rightarrow> (unit, 'w) call"

subsection \<open>MainComponentsRegistry.h\<close>

text \<open>
  The class declares no data member: an instance carries no field of its own.
\<close>

datatype MainComponentsRegistry = MainComponentsRegistry_instance

definition kJavaDescriptor :: string where
  "kJavaDescriptor = ''Lcom/healthtracker/MainComponentsRegistry;''"

subsection \<open>MainComponentsRegistry.cpp\<close>

text \<open>\<^verbatim>\<open>MainComponentsRegistry::MainComponentsRegistry() {}\<close>\<close>

definition MainComponentsRegistry :: "(MainComponentsRegistry, 'w) call" where
  "MainComponentsRegistry w = (Returned MainComponentsRegistry_instance, w)"

text \<open>
  \<^verbatim>\<open>auto providerRegistry = CoreComponentsRegistry::sharedProviderRegistry();
  return providerRegistry;\<close>

  An exception of the call leaves the function at once; the source catches nothing.
\<close>

definition sharedProviderRegistry ::
  "('w, 'r) host \<Rightarrow> MainComponentsRegistry \<Rightarrow> ('r, 'w) call" where
  "sharedProviderRegistry h this w =
     (case CoreComponentsRegistry_sharedProviderRegistry h w of
        (Threw e, w') \<Rightarrow> (Threw e, w')
      | (Returned providerRegistry, w') \<Rightarrow> (Returned providerRegistry, w'))"

text \<open>
  \<^verbatim>\<open>auto instance = makeCxxInstance(); return instance;\<close>

  The parameter of type \<^verbatim>\<open>jni::alias_ref<jclass>\<close> has no name in the source.
\<close>

definition initHybrid :: "('w, 'r) host \<Rightarrow> jclass \<Rightarrow> (jhybriddata, 'w) call" where
  "initHybrid h cls w =
     (case makeCxxInstance h w of
        (Threw e, w') \<Rightarrow> (Threw e, w')
      | (Returned instance, w') \<Rightarrow> (Returned instance, w'))"

text \<open>
  \<^verbatim>\<open>registerHybrid({ makeNativeMethod("initHybrid", MainComponentsRegistry::initHybrid), });\<close>
\<close>

definition registerNatives :: "('w, 'r) host \<Rightarrow> (unit, 'w) call" where
  "registerNatives h w =
     registerHybrid h [makeNativeMethod ''initHybrid'' (initHybrid h)] w"

subsection \<open>MainApplicationModuleProvider.h\<close>

text \<open>
  Modelled from the spec: the header declares
  \<^verbatim>\<open>std::shared_ptr<TurboModule> MainApplicationModuleProvider(const std::string &name,
  const std::shared_ptr<CallInvoker> &jsInvoker)\<close>; the function's body is not among the
  sources of the repository. The spec calls it ``a stub returning no native modules'' and
  ``a lookup function returning a named native module instance (always empty/none in
  this fragment)'', with ``no branching, no error conditions, and no side
  effects''. The empty \<^verbatim>\<open>shared_ptr\<close> is \<open>None\<close>.
\<close>

definition MainApplicationModuleProvider :: "string \<Rightarrow> 'invoker \<Rightarrow> ('module option, 'w) call" where
  "MainApplicationModuleProvider name jsInvoker w = (Returned None, w)"

subsection \<open>A reference host\<close>

text \<open>
  Modelled from the spec: the host framework is not part of the repository. The spec
  describes ``a process-wide registry of component descriptor providers, owned and
  populated by the base framework infrastructure outside this fragment'', to which the
  fragment ``merely exposes a read accessor'', ``object construction dictated by the
  host framework's registration contract'' and ``a named constructor callable from
  managed code''. The reference host is the smallest world with these three parts:
  its accessor reads the registry and writes nothing, its construction adds one
  instance, its registration files the methods it is given.
  \<^item> \<open>providers\<close>: the component descriptor providers of the process-wide registry, by
    component name;
  \<^item> \<open>hybrids\<close>: the C++ instances that managed peers own; the reference to hybrid data
    is the position in this list;
  \<^item> \<open>natives\<close>: the native methods registered so far, as pairs of the managed class's
    descriptor and the method's name.
\<close>

record world =
  providers :: "string list"
  hybrids :: "MainComponentsRegistry list"
  natives :: "(string \<times> string) list"

text \<open>
  Modelled from the spec: the base accessor is ``a read accessor'' to the registry
  that the base framework owns and populates. It hands out the providers and leaves
  the world as it is.
\<close>

definition reference_sharedProviderRegistry :: "(string list, world) call" where
  "reference_sharedProviderRegistry w = (Returned (providers w), w)"

text \<open>
  Modelled from the spec: ``object construction dictated by the host framework's
  registration contract''. Construction runs the constructor of
  \<^verbatim>\<open>MainComponentsRegistry\<close> and gives the new instance to a new managed peer.
\<close>

definition reference_makeCxxInstance :: "(jhybriddata, world) call" where
  "reference_makeCxxInstance w =
     (case MainComponentsRegistry w of
        (Threw e, w') \<Rightarrow> (Threw e, w')
      | (Returned obj, w') \<Rightarrow>
          (Returned (length (hybrids w')), w'\<lparr>hybrids := hybrids w' @ [obj]\<rparr>))"

text \<open>
  Modelled from the spec: the registration of ``a named constructor callable from
  managed code''. Each method is filed by name under the descriptor of the class.
\<close>

definition reference_registerHybrid :: "world native_method list \<Rightarrow> (unit, world) call" where
  "reference_registerHybrid ms w =
     (Returned (), w\<lparr>natives := natives w @ map (\<lambda>m. (kJavaDescriptor, method_name m)) ms\<rparr>)"

definition reference_host :: "(world, string list) host" where
  "reference_host =
     \<lparr>CoreComponentsRegistry_sharedProviderRegistry = reference_sharedProviderRegistry,
      makeCxxInstance = reference_makeCxxInstance,
      registerHybrid = reference_registerHybrid\<rparr>"

definition sample_world :: world where
  "sample_world = \<lparr>providers = [''View'', ''Text'', ''ScrollView''], hybrids = [], natives = []\<rparr>"

subsection \<open>A host whose calls fail\<close>

text \<open>
  A C++ call may leave by an exception, and the fragment has no say in whether the
  host's calls do. This host is such an input: each of its three calls throws and
  changes nothing, as a managed runtime does that cannot find the class or the
  method to bind.
\<close>

definition failing_host :: "(world, string list) host" where
  "failing_host =
     \<lparr>CoreComponentsRegistry_sharedProviderRegistry = (\<lambda>w. (Threw ''std::bad_alloc'', w)),
      makeCxxInstance = (\<lambda>w. (Threw ''java.lang.OutOfMemoryError'', w)),
      registerHybrid = (\<lambda>ms w. (Threw ''java.lang.NoSuchMethodError'', w))\<rparr>"

subsection \<open>States between calls\<close>

text \<open>
  The worlds reachable from \<open>w0\<close> on the reference host without an external mutation
  of the base registry: by the operations of the fragment, in any order and with any
  arguments, and by steps of the rest of the process, which may change every part of
  the world but the providers of the registry.
\<close>

inductive reachable :: "world \<Rightarrow> world \<Rightarrow> bool" for w0 :: world where
  start: "reachable w0 w0"
| constructed: "reachable w0 w \<Longrightarrow> reachable w0 (snd (MainComponentsRegistry w))"
| accessed: "reachable w0 w \<Longrightarrow> reachable w0 (snd (sharedProviderRegistry reference_host this w))"
| instantiated: "reachable w0 w \<Longrightarrow> reachable w0 (snd (initHybrid reference_host cls w))"
| registered: "reachable w0 w \<Longrightarrow> reachable w0 (snd (registerNatives reference_host w))"
| elsewhere: "reachable w0 w \<Longrightarrow> providers w' = providers w \<Longrightarrow> reachable w0 w'"

section \<open>Properties\<close>

subsection \<open>Auxiliary facts\<close>

lemma outcome_rebuild:
  "(case c of (Threw e, w') \<Rightarrow> (Threw e, w') | (Returned v, w') \<Rightarrow> (Returned v, w')) = c"
  by (cases c) (simp split: outcome.split)

lemmas reference_defs =
  reference_host_def reference_sharedProviderRegistry_def reference_makeCxxInstance_def
  reference_registerHybrid_def sample_world_def

text \<open>
  On the reference host the accessor reads the providers and writes nothing.
\<close>

lemma reference_accessor:
  "sharedProviderRegistry reference_host this w = (Returned (providers w), w)"
  by (simp add: sharedProviderRegistry_def reference_host_def reference_sharedProviderRegistry_def)

text \<open>
  On the reference host, \<open>initHybrid\<close> hands out a reference that no managed peer had
  before, and \<open>registerNatives\<close> files one method under the descriptor of the class.
\<close>

lemma reference_initHybrid:
  "initHybrid reference_host cls w
     = (Returned (length (hybrids w)), w\<lparr>hybrids := hybrids w @ [MainComponentsRegistry_instance]\<rparr>)"
  by (simp add: initHybrid_def reference_host_def reference_makeCxxInstance_def
      MainComponentsRegistry_def)

lemma reference_registerNatives:
  "registerNatives reference_host w
     = (Returned (), w\<lparr>natives := natives w @ [(kJavaDescriptor, ''initHybrid'')]\<rparr>)"
  by (simp add: registerNatives_def makeNativeMethod_def reference_host_def
      reference_registerHybrid_def)

text \<open>
  No operation of the fragment touches the providers on the reference host, so every
  reachable world has the providers of the start.
\<close>

lemma reachable_providers:
  assumes "reachable w0 w"
  shows "providers w = providers w0"
  using assms
proof (induction rule: reachable.induct)
  case start
  show ?case by simp
next
  case (constructed w)
  then show ?case by (simp add: MainComponentsRegistry_def)
next
  case (accessed w this)
  then show ?case by (simp add: reference_accessor)
next
  case (instantiated w cls)
  then show ?case by (simp add: reference_initHybrid)
next
  case (registered w)
  then show ?case by (simp add: reference_registerNatives)
next
  case (elsewhere w w')
  then show ?case by simp
qed

subsection \<open>The registry accessor\<close>

text \<open>
  C1. For every call, \<open>sharedProviderRegistry\<close> returns exactly what
  \<^verbatim>\<open>CoreComponentsRegistry::sharedProviderRegistry\<close> returns: the same outcome (the
  base framework's registry, unchanged) and the same world after the call, whatever
  the receiver \<open>this\<close> is.
\<close>

theorem sharedProviderRegistry_forwards:
  "sharedProviderRegistry h this w = CoreComponentsRegistry_sharedProviderRegistry h w"
  by (simp add: sharedProviderRegistry_def outcome_rebuild)

text \<open>
  C3. \<open>sharedProviderRegistry\<close> is a pure read accessor. On the reference host, for
  every receiver and every world, the call returns the providers of the registry and
  leaves the world exactly as it was: no provider is added, removed or modified, and
  nothing else changes either. On every host, the world after the call is the world
  the base accessor leaves: the fragment writes nothing of its own.
\<close>

theorem sharedProviderRegistry_read_only:
  "snd (sharedProviderRegistry reference_host this w) = w
   \<and> providers (snd (sharedProviderRegistry reference_host this w)) = providers w
   \<and> fst (sharedProviderRegistry reference_host this w) = Returned (providers w)
   \<and> snd (sharedProviderRegistry h this' w')
       = snd (CoreComponentsRegistry_sharedProviderRegistry h w')"
proof (intro conjI)
  show "snd (sharedProviderRegistry reference_host this w) = w"
    by (simp add: reference_accessor)
  show "providers (snd (sharedProviderRegistry reference_host this w)) = providers w"
    by (simp add: reference_accessor)
  show "fst (sharedProviderRegistry reference_host this w) = Returned (providers w)"
    by (simp add: reference_accessor)
  show "snd (sharedProviderRegistry h this' w')
       = snd (CoreComponentsRegistry_sharedProviderRegistry h w')"
    by (simp add: sharedProviderRegistry_def outcome_rebuild)
qed

theorem sharedProviderRegistry_read_only_witness:
  "snd (sharedProviderRegistry reference_host MainComponentsRegistry_instance sample_world)
     = \<lparr>providers = [''View'', ''Text'', ''ScrollView''], hybrids = [], natives = []\<rparr>
   \<and> fst (sharedProviderRegistry reference_host MainComponentsRegistry_instance sample_world)
     = Returned [''View'', ''Text'', ''ScrollView'']"
  using sharedProviderRegistry_read_only
    [of MainComponentsRegistry_instance sample_world reference_host
        MainComponentsRegistry_instance sample_world]
  by (simp add: sample_world_def)

text \<open>
  C7. \<open>sharedProviderRegistry\<close> is deterministic. On the reference host, in any two
  worlds reachable from a start world \<open>w0\<close> without an external mutation of the base
  registry, and on any two receivers, the two calls return equal results: the one
  shared registry of the base framework, as \<open>w0\<close> has it.
\<close>

theorem sharedProviderRegistry_deterministic:
  assumes "reachable w0 w1" and "reachable w0 w2"
  shows "fst (sharedProviderRegistry reference_host this1 w1)
           = fst (sharedProviderRegistry reference_host this2 w2)
         \<and> fst (sharedProviderRegistry reference_host this1 w1) = Returned (providers w0)"
proof -
  from assms have "providers w1 = providers w0" and "providers w2 = providers w0"
    by (simp_all add: reachable_providers)
  then show ?thesis
    by (simp add: reference_accessor)
qed

theorem sharedProviderRegistry_deterministic_witness:
  "reachable sample_world (snd (initHybrid reference_host 7 sample_world))
   \<and> reachable sample_world
        (snd (registerNatives reference_host (snd (initHybrid reference_host 7 sample_world))))
   \<and> fst (sharedProviderRegistry reference_host MainComponentsRegistry_instance
             (snd (initHybrid reference_host 7 sample_world)))
       = fst (sharedProviderRegistry reference_host MainComponentsRegistry_instance
             (snd (registerNatives reference_host (snd (initHybrid reference_host 7 sample_world)))))
   \<and> fst (sharedProviderRegistry reference_host MainComponentsRegistry_instance
             (snd (initHybrid reference_host 7 sample_world)))
       = Returned [''View'', ''Text'', ''ScrollView'']"
proof -
  have r1: "reachable sample_world (snd (initHybrid reference_host 7 sample_world))"
    by (rule reachable.instantiated) (rule reachable.start)
  then have r2: "reachable sample_world
        (snd (registerNatives reference_host (snd (initHybrid reference_host 7 sample_world))))"
    by (rule reachable.registered)
  have p0: "Returned (providers sample_world) = Returned [''View'', ''Text'', ''ScrollView'']"
    by (simp add: sample_world_def)
  note calls = sharedProviderRegistry_deterministic [OF r1 r2,
      of MainComponentsRegistry_instance MainComponentsRegistry_instance]
  from calls have same:
    "fst (sharedProviderRegistry reference_host MainComponentsRegistry_instance
            (snd (initHybrid reference_host 7 sample_world)))
       = fst (sharedProviderRegistry reference_host MainComponentsRegistry_instance
            (snd (registerNatives reference_host (snd (initHybrid reference_host 7 sample_world)))))"
    by (rule conjunct1)
  from calls have "fst (sharedProviderRegistry reference_host MainComponentsRegistry_instance
            (snd (initHybrid reference_host 7 sample_world)))
       = Returned (providers sample_world)"
    by (rule conjunct2)
  then have shared:
    "fst (sharedProviderRegistry reference_host MainComponentsRegistry_instance
            (snd (initHybrid reference_host 7 sample_world)))
       = Returned [''View'', ''Text'', ''ScrollView'']"
    using p0 by (rule trans)
  from r1 r2 same shared show ?thesis
    by (intro conjI)
qed

subsection \<open>The module provider\<close>

text \<open>
  C2. For every module name and every \<open>jsInvoker\<close>, in every world,
  \<open>MainApplicationModuleProvider\<close> returns no native module: the empty pointer.
\<close>

theorem MainApplicationModuleProvider_none:
  "fst (MainApplicationModuleProvider name jsInvoker w) = Returned None"
  by (simp add: MainApplicationModuleProvider_def)

subsection \<open>Errors and effects\<close>

text \<open>
  C4, as the claim states it, fails: on a host whose calls throw, none of
  \<open>sharedProviderRegistry\<close>, \<open>initHybrid\<close> and \<open>registerNatives\<close> returns normally.
  The source catches nothing, so the exception of the host call leaves the function.
\<close>

theorem fragment_returns_normally_counterexample:
  "\<not> returns (sharedProviderRegistry failing_host MainComponentsRegistry_instance sample_world)
   \<and> \<not> returns (initHybrid failing_host 7 sample_world)
   \<and> \<not> returns (registerNatives failing_host sample_world)"
  by (simp add: returns_def sharedProviderRegistry_def initHybrid_def registerNatives_def
      failing_host_def)

text \<open>
  C4, amended. No operation of the fragment has an error path of its own. The
  constructor returns normally in every world. Each of \<open>sharedProviderRegistry\<close>,
  \<open>initHybrid\<close> and \<open>registerNatives\<close> returns normally exactly when the one host call
  it makes returns normally, for every host, argument and world, and its outcome is
  the outcome of that call: the value on return, the same exception otherwise. No
  branch of the fragment fails or returns an error.
\<close>

theorem fragment_no_error_of_its_own:
  "returns (MainComponentsRegistry w)
   \<and> returns (sharedProviderRegistry h this w)
       = returns (CoreComponentsRegistry_sharedProviderRegistry h w)
   \<and> returns (initHybrid h cls w) = returns (makeCxxInstance h w)
   \<and> returns (registerNatives h w)
       = returns (registerHybrid h [makeNativeMethod ''initHybrid'' (initHybrid h)] w)
   \<and> fst (sharedProviderRegistry h this w)
       = fst (CoreComponentsRegistry_sharedProviderRegistry h w)
   \<and> fst (initHybrid h cls w) = fst (makeCxxInstance h w)
   \<and> fst (registerNatives h w)
       = fst (registerHybrid h [makeNativeMethod ''initHybrid'' (initHybrid h)] w)"
proof (intro conjI)
  show "returns (MainComponentsRegistry w)"
    by (simp add: returns_def MainComponentsRegistry_def)
  show "returns (sharedProviderRegistry h this w)
       = returns (CoreComponentsRegistry_sharedProviderRegistry h w)"
    by (simp add: sharedProviderRegistry_def outcome_rebuild)
  show "returns (initHybrid h cls w) = returns (makeCxxInstance h w)"
    by (simp add: initHybrid_def outcome_rebuild)
  show "returns (registerNatives h w)
       = returns (registerHybrid h [makeNativeMethod ''initHybrid'' (initHybrid h)] w)"
    by (simp add: registerNatives_def)
  show "fst (sharedProviderRegistry h this w)
       = fst (CoreComponentsRegistry_sharedProviderRegistry h w)"
    by (simp add: sharedProviderRegistry_def outcome_rebuild)
  show "fst (initHybrid h cls w) = fst (makeCxxInstance h w)"
    by (simp add: initHybrid_def outcome_rebuild)
  show "fst (registerNatives h w)
       = fst (registerHybrid h [makeNativeMethod ''initHybrid'' (initHybrid h)] w)"
    by (simp add: registerNatives_def)
qed

theorem fragment_no_error_of_its_own_witness:
  "returns (MainComponentsRegistry sample_world)
   \<and> returns (sharedProviderRegistry reference_host MainComponentsRegistry_instance sample_world)
   \<and> returns (initHybrid reference_host 7 sample_world)
   \<and> returns (registerNatives reference_host sample_world)
   \<and> fst (registerNatives failing_host sample_world) = Threw ''java.lang.NoSuchMethodError''"
proof -
  have host:
    "returns (CoreComponentsRegistry_sharedProviderRegistry reference_host sample_world)"
    "returns (makeCxxInstance reference_host sample_world)"
    "returns (registerHybrid reference_host
        [makeNativeMethod ''initHybrid'' (initHybrid reference_host)] sample_world)"
    by (simp_all add: returns_def reference_defs MainComponentsRegistry_def)
  have thrown:
    "fst (registerHybrid failing_host
        [makeNativeMethod ''initHybrid'' (initHybrid failing_host)] sample_world)
       = Threw ''java.lang.NoSuchMethodError''"
    by (simp add: failing_host_def)
  from host thrown
    fragment_no_error_of_its_own [of sample_world reference_host MainComponentsRegistry_instance 7]
    fragment_no_error_of_its_own [of sample_world failing_host MainComponentsRegistry_instance 7]
  show ?thesis by simp
qed

text \<open>
  C5. The two visible functions have no side effect beyond object construction. On
  the reference host, for every argument and world, \<open>sharedProviderRegistry\<close> changes
  no state at all, and \<open>initHybrid\<close> returns the reference of one new hybrid instance
  and changes the world by that instance only. On every host, the world after
  \<open>sharedProviderRegistry\<close> is the world after the base accessor, and the world after
  \<open>initHybrid\<close> is the world after the host's construction of a hybrid instance
  (\<open>makeCxxInstance\<close>), nothing more.
\<close>

theorem visible_functions_effects:
  "snd (sharedProviderRegistry reference_host this w) = w
   \<and> initHybrid reference_host cls w
       = (Returned (length (hybrids w)),
          w\<lparr>hybrids := hybrids w @ [MainComponentsRegistry_instance]\<rparr>)
   \<and> snd (sharedProviderRegistry h this' w')
       = snd (CoreComponentsRegistry_sharedProviderRegistry h w')
   \<and> snd (initHybrid h cls' w') = snd (makeCxxInstance h w')"
proof (intro conjI)
  show "snd (sharedProviderRegistry reference_host this w) = w"
    by (simp add: reference_accessor)
  show "initHybrid reference_host cls w
       = (Returned (length (hybrids w)),
          w\<lparr>hybrids := hybrids w @ [MainComponentsRegistry_instance]\<rparr>)"
    by (rule reference_initHybrid)
  show "snd (sharedProviderRegistry h this' w')
       = snd (CoreComponentsRegistry_sharedProviderRegistry h w')"
    by (simp add: sharedProviderRegistry_def outcome_rebuild)
  show "snd (initHybrid h cls' w') = snd (makeCxxInstance h w')"
    by (simp add: initHybrid_def outcome_rebuild)
qed

theorem visible_functions_effects_witness:
  "snd (sharedProviderRegistry reference_host MainComponentsRegistry_instance sample_world)
       = sample_world
   \<and> snd (initHybrid reference_host 7 sample_world)
       = sample_world\<lparr>hybrids := [MainComponentsRegistry_instance]\<rparr>
   \<and> providers (snd (initHybrid reference_host 7 sample_world)) = providers sample_world
   \<and> natives (snd (initHybrid reference_host 7 sample_world)) = natives sample_world"
proof -
  have empty: "hybrids sample_world = []"
    by (simp add: sample_world_def)
  from empty
    visible_functions_effects [of MainComponentsRegistry_instance sample_world 7 reference_host
      MainComponentsRegistry_instance sample_world 7]
  show ?thesis by simp
qed

subsection \<open>Registration and construction\<close>

text \<open>
  C6. \<open>registerNatives\<close> registers exactly one native method: the list it hands to
  \<open>registerHybrid\<close> has one entry, named \<open>initHybrid\<close> and bound to the function
  \<open>initHybrid\<close> of the class.
\<close>

theorem registerNatives_registers_initHybrid:
  "registerNatives h w =
     registerHybrid h [\<lparr>method_name = ''initHybrid'', fnPtr = initHybrid h\<rparr>] w"
  by (simp add: registerNatives_def makeNativeMethod_def)

theorem registerNatives_registers_initHybrid_witness:
  "natives (snd (registerNatives reference_host sample_world))
     = [(''Lcom/healthtracker/MainComponentsRegistry;'', ''initHybrid'')]"
  using registerNatives_registers_initHybrid [of reference_host sample_world]
  by (simp add: reference_defs kJavaDescriptor_def)

text \<open>
  C8. \<open>initHybrid\<close> ignores its \<open>jclass\<close> argument: for any two class references
  the calls have the same outcome and leave the same world, which are those of
  \<open>makeCxxInstance\<close>, the construction of a new hybrid instance.
\<close>

theorem initHybrid_ignores_jclass:
  "initHybrid h cls1 w = initHybrid h cls2 w \<and> initHybrid h cls1 w = makeCxxInstance h w"
  by (simp add: initHybrid_def outcome_rebuild)

theorem initHybrid_ignores_jclass_witness:
  "initHybrid reference_host 3 sample_world = initHybrid reference_host 8 sample_world
   \<and> initHybrid reference_host 3 sample_world
       = (Returned 0, sample_world\<lparr>hybrids := [MainComponentsRegistry_instance]\<rparr>)"
proof -
  have construction:
    "makeCxxInstance reference_host sample_world
       = (Returned 0, sample_world\<lparr>hybrids := [MainComponentsRegistry_instance]\<rparr>)"
    by (simp add: reference_defs MainComponentsRegistry_def)
  note calls = initHybrid_ignores_jclass [of reference_host 3 sample_world 8]
  from calls have same:
    "initHybrid reference_host 3 sample_world = initHybrid reference_host 8 sample_world"
    by (rule conjunct1)
  from calls have "initHybrid reference_host 3 sample_world = makeCxxInstance reference_host sample_world"
    by (rule conjunct2)
  then have "initHybrid reference_host 3 sample_world
       = (Returned 0, sample_world\<lparr>hybrids := [MainComponentsRegistry_instance]\<rparr>)"
    using construction by (rule trans)
  with same show ?thesis by (intro conjI)
qed

text \<open>
  C9. The default constructor of \<open>MainComponentsRegistry\<close> has an empty body: it
  leaves the world as it was, it returns the same instance in every world, and an
  instance has no field by which two instances could differ.
\<close>

theorem constructor_empty_body:
  "snd (MainComponentsRegistry w) = w
   \<and> fst (MainComponentsRegistry w) = fst (MainComponentsRegistry w')
   \<and> (\<forall>a b :: MainComponentsRegistry. a = b)"
proof (intro conjI allI)
  show "snd (MainComponentsRegistry w) = w"
    by (simp add: MainComponentsRegistry_def)
  show "fst (MainComponentsRegistry w) = fst (MainComponentsRegistry w')"
    by (simp add: MainComponentsRegistry_def)
  fix a b :: MainComponentsRegistry
  show "a = b" by (cases a, cases b) simp
qed

text \<open>
  C10. The binding name of the hybrid class for managed code, \<open>kJavaDescriptor\<close>, is
  the constant string \<^verbatim>\<open>Lcom/healthtracker/MainComponentsRegistry;\<close>. It is a constant
  of the class, no part of the world, so no call can change it.
\<close>

theorem kJavaDescriptor_constant:
  "kJavaDescriptor = ''Lcom/healthtracker/MainComponentsRegistry;''"
  by (simp add: kJavaDescriptor_def)

end
